theory Spec2Isabelle
  imports Complex_Main "HOL-Library.Multiset"
begin

section \<open>utils.py\<close>

subsection \<open>Errors\<close>

text \<open>
  The exceptions the modelled code can raise. \<open>KeyError k\<close> is a dictionary subscript
  \<^verbatim>\<open>d[k]\<close> on a dictionary without the key \<open>k\<close>; \<open>ValueError msg\<close> is the
  \<^verbatim>\<open>raise ValueError(msg)\<close> of \<^verbatim>\<open>get_archive_format\<close>; \<open>TimestampError\<close> stands for
  whatever \<^verbatim>\<open>datetime.fromtimestamp\<close> raises on a timestamp it cannot represent.
\<close>

datatype error = KeyError string | ValueError string | TimestampError

subsection \<open>convert\_date\<close>

text \<open>
  \<^verbatim>\<open>
  def convert_date(date: int) -> int:
      epoch = 978307200
      if date > epoch * 1000**2:
          return date // 1000**3 + epoch
      else:
          return date + epoch
  \<close>
  Python integers are unbounded, so the model is over \<open>int\<close>; \<^verbatim>\<open>//\<close> is floor division,
  which is \<open>div\<close> on \<open>int\<close>.
\<close>

definition epoch :: int where
  "epoch = 978307200"

definition convert_date :: "int \<Rightarrow> int" where
  "convert_date date =
     (if date > epoch * 1000 ^ 2 then date div 1000 ^ 3 + epoch else date + epoch)"

subsection \<open>get\_archive\_format\<close>

text \<open>
  A \<^verbatim>\<open>Path\<close> is modelled by its components (\<^verbatim>\<open>Path.parts\<close> without the anchor);
  \<^verbatim>\<open>Path.name\<close> is the last component, or the empty string when there is none.
  \<^verbatim>\<open>Path.suffix\<close> is pathlib's
  \<^verbatim>\<open>
      name = self.name
      i = name.rfind('.')
      if 0 < i < len(name) - 1:
          return name[i:]
      else:
          return ''
  \<close>
  so the suffix starts at the \<^emph>\<open>last\<close> dot of the name.
\<close>

type_synonym path = "string list"

definition path_name :: "path \<Rightarrow> string" where
  "path_name p = (if p = [] then [] else last p)"

primrec rfind_from :: "char \<Rightarrow> string \<Rightarrow> int \<Rightarrow> int \<Rightarrow> int" where
  "rfind_from c [] i found = found"
| "rfind_from c (x # xs) i found = rfind_from c xs (i + 1) (if x = c then i else found)"

definition rfind :: "string \<Rightarrow> char \<Rightarrow> int" where
  "rfind s c = rfind_from c s 0 (- 1)"

definition path_suffix :: "path \<Rightarrow> string" where
  "path_suffix p =
     (let name = path_name p; i = rfind name (CHR ''.'')
      in if 0 < i \<and> i < int (length name) - 1 then drop (nat i) name else [])"

text \<open>
  \<^verbatim>\<open>str.lower()\<close> on the ASCII letters: a \<open>char\<close> is a byte, and file names are
  taken to be ASCII.
\<close>

definition lower_char :: "char \<Rightarrow> char" where
  "lower_char c =
     (let n = (of_char c :: nat) in if 65 \<le> n \<and> n \<le> 90 then char_of (n + 32) else c)"

definition lower :: "string \<Rightarrow> string" where
  "lower s = map lower_char s"

text \<open>\<^verbatim>\<open>sep.join(xs)\<close>\<close>

fun join :: "string \<Rightarrow> string list \<Rightarrow> string" where
  "join sep [] = []"
| "join sep [x] = x"
| "join sep (x # y # ys) = x @ sep @ join sep (y # ys)"

text \<open>
  The dictionary literal \<^verbatim>\<open>formats\<close>, in its insertion order (the order in which
  \<^verbatim>\<open>formats.keys()\<close> lists the extensions in the error message).
\<close>

definition formats :: "(string \<times> string) list" where
  "formats =
     [(''.zip'', ''zip''),
      (''.tar'', ''tar''),
      (''.tgz'', ''gztar''),
      (''.tar.gz'', ''gztar''),
      (''.tbz'', ''bztar''),
      (''.tar.bz2'', ''bztar''),
      (''.txz'', ''xztar''),
      (''.tar.xz'', ''xztar'')]"

definition get_archive_format :: "path \<Rightarrow> error + string" where
  "get_archive_format filename =
     (let extension = lower (path_suffix filename)
      in case map_of formats extension of
           None \<Rightarrow>
             Inl (ValueError (''Unsupported archive format: '' @ extension
                    @ ''. Supported formats are: '' @ join '', '' (map fst formats)))
         | Some fmt \<Rightarrow> Inr fmt)"

section \<open>html\_creator.py\<close>

subsection \<open>Python built-ins used by the generator\<close>

text \<open>
  \<^verbatim>\<open>list.sort(key=..., reverse=...)\<close> and \<^verbatim>\<open>sorted(...)\<close> are stable. With
  \<^verbatim>\<open>reverse=True\<close> CPython reverses the list, sorts it stably in ascending order and
  reverses the result, so elements with equal keys keep their original order.
  \<open>sort_key\<close> is the stable insertion sort of the list library.
\<close>

definition py_sorted :: "('a \<Rightarrow> int) \<Rightarrow> bool \<Rightarrow> 'a list \<Rightarrow> 'a list" where
  "py_sorted key reverse xs =
     (if reverse then rev (sort_key key (rev xs)) else sort_key key xs)"

text \<open>\<^verbatim>\<open>str(n)\<close> for an integer, as an f-string renders \<^verbatim>\<open>len(...)\<close>.\<close>

definition digit_char :: "int \<Rightarrow> char" where
  "digit_char d = ''0123456789'' ! nat d"

function str_int :: "int \<Rightarrow> string" where
  "str_int n =
     (if n < 0 then CHR ''-'' # str_int (- n)
      else if n < 10 then [digit_char n]
      else str_int (n div 10) @ [digit_char (n mod 10)])"
  by pat_completeness auto
termination
  by (relation "measure (\<lambda>n. if n < 0 then nat (- n) + 1 else nat n)") auto

declare str_int.simps [simp del]

text \<open>\<^verbatim>\<open>s.endswith(ext)\<close>\<close>

definition endswith :: "string \<Rightarrow> string \<Rightarrow> bool" where
  "endswith s ext = (length ext \<le> length s \<and> drop (length s - length ext) s = ext)"

text \<open>
  \<^verbatim>\<open>xs.remove(v)\<close> deletes the first element equal to \<open>v\<close>; the source calls it only
  under the guard \<^verbatim>\<open>if v in xs\<close>, so its \<^verbatim>\<open>ValueError\<close> cannot occur.
\<close>

fun list_remove :: "'a \<Rightarrow> 'a list \<Rightarrow> 'a list" where
  "list_remove v [] = []"
| "list_remove v (x # xs) = (if x = v then xs else x # list_remove v xs)"

subsection \<open>The data read from the backup\<close>

text \<open>
  A value stored under a key of a JSON object that the generator treats as optional:
  the key may be missing (\<open>Absent\<close>), hold \<^verbatim>\<open>null\<close> (\<open>Null\<close>), or hold a value.
\<close>

datatype 'a json_field = Absent | Null | Val 'a

text \<open>
  One element of \<^verbatim>\<open>chat['messages']\<close>. The keys \<^verbatim>\<open>date\<close> and \<^verbatim>\<open>is_from_me\<close> are
  taken to be present; \<^verbatim>\<open>date\<close> is the integer handed to \<^verbatim>\<open>datetime.fromtimestamp\<close>.
  The key \<^verbatim>\<open>text\<close> is the field \<open>msg_text\<close>.
\<close>

record message =
  sender :: "string json_field"
  date :: int
  is_from_me :: bool
  msg_text :: "string json_field"
  attachment_path :: "string json_field"

text \<open>
  One chat document. \<^verbatim>\<open>participants\<close> is a dictionary in insertion order, kept as an
  association list. \<open>display_name\<close> is the result of \<^verbatim>\<open>chat.get('display_name')\<close>
  (\<open>None\<close> for a missing key or \<^verbatim>\<open>null\<close>). \<open>last_message_date\<close> is \<open>None\<close> when the key
  is missing.
\<close>

record chat =
  chat_id :: string
  display_name :: "string option"
  participants :: "(string \<times> string) list"
  messages :: "message list"
  last_message_date :: "int option"

text \<open>
  \<^verbatim>\<open>datetime.fromtimestamp(t)\<close> depends on the time zone of the machine, so it is a
  parameter of the model: a \<open>clock\<close> maps a timestamp to the pair of
  \<^verbatim>\<open>strftime('%Y-%m-%d')\<close> and \<^verbatim>\<open>strftime('%I:%M %p')\<close> of the local date and time, or
  to \<open>None\<close> where \<^verbatim>\<open>fromtimestamp\<close> raises.
\<close>

type_synonym clock = "int \<Rightarrow> (string \<times> string) option"

text \<open>
  One clock, used to run the model on concrete chats: the machine's time zone is UTC.
  \<open>civil_from_days\<close> turns a day count since 1970-01-01 into year, month and day of
  the proleptic Gregorian calendar. Under UTC, \<^verbatim>\<open>datetime.fromtimestamp\<close> accepts the
  timestamps from 0001-01-02 00:00:00 to 9999-12-31 23:59:59 and raises outside, and
  \<^verbatim>\<open>%Y\<close> prints the year without padding.
\<close>

definition civil_from_days :: "int \<Rightarrow> int \<times> int \<times> int" where
  "civil_from_days days =
     (let z = days + 719468;
          era = z div 146097;
          doe = z mod 146097;
          yoe = (doe - doe div 1460 + doe div 36524 - doe div 146096) div 365;
          doy = doe - (365 * yoe + yoe div 4 - yoe div 100);
          mp = (5 * doy + 2) div 153;
          d = doy - (153 * mp + 2) div 5 + 1;
          m = (if mp < 10 then mp + 3 else mp - 9);
          y = yoe + era * 400 + (if m \<le> 2 then 1 else 0)
      in (y, m, d))"

definition pad :: "nat \<Rightarrow> int \<Rightarrow> string" where
  "pad w n = replicate (w - length (str_int n)) (CHR ''0'') @ str_int n"

definition utc_clock :: clock where
  "utc_clock t =
     (let (y, m, d) = civil_from_days (t div 86400);
          secs = t mod 86400;
          hour = secs div 3600;
          minute = secs mod 3600 div 60;
          hour12 = (if hour mod 12 = 0 then 12 else hour mod 12)
      in if - 62135510400 \<le> t \<and> t \<le> 253402300799
         then Some (str_int y @ ''-'' @ pad 2 m @ ''-'' @ pad 2 d,
                    pad 2 hour12 @ '':'' @ pad 2 minute @ (if hour < 12 then '' AM'' else '' PM''))
         else None)"

subsection \<open>\_get\_chat\_name\<close>

text \<open>
  Lines 502 to 506: the display names in dictionary order, with the first \<^verbatim>\<open>"Me"\<close>
  taken out.
\<close>

definition remaining_participants :: "chat \<Rightarrow> string list" where
  "remaining_participants c =
     (let participants0 = map snd (participants c)
      in if ''Me'' \<in> set participants0 then list_remove ''Me'' participants0 else participants0)"

definition get_chat_name :: "chat \<Rightarrow> string" where
  "get_chat_name c =
     (let participants1 = remaining_participants c
      in if participants1 = [] then ''Empty Chat''
         else if length participants1 = 1 then participants1 ! 0
         else if length participants1 > 3
           then join '', '' (take 3 participants1) @ ''... (''
                  @ str_int (int (length participants1)) @ '' people)''
           else join '', '' participants1)"

text \<open>\<^verbatim>\<open>chat.get('display_name') or self._get_chat_name(chat)\<close>\<close>

definition chat_name :: "chat \<Rightarrow> string" where
  "chat_name c =
     (case display_name c of
        None \<Rightarrow> get_chat_name c
      | Some n \<Rightarrow> if n \<noteq> [] then n else get_chat_name c)"

subsection \<open>\_create\_chat\_page\<close>

text \<open>
  The page is kept as the sequence of elements that the source appends to \<^verbatim>\<open>html\<close>:
  a date divider with its label, and a message block with its CSS class, sender name,
  time string and contents.
\<close>

datatype content = TextP string | MessageImage string | AttachmentLink string string

datatype html_item = DateDivider string | MessageDiv string string string "content list"

record chat_page =
  page_file :: string
  page_title :: string
  page_participants :: string
  page_items :: "html_item list"

definition sort_messages :: "message list \<Rightarrow> message list" where
  "sort_messages msgs = py_sorted date False msgs"

definition is_image :: "string \<Rightarrow> bool" where
  "is_image p = list_ex (\<lambda>ext. endswith (lower p) ext) [''.jpg'', ''.jpeg'', ''.png'', ''.gif'']"

text \<open>
  \<^verbatim>\<open>participants.get(sender_id, sender_id)\<close>; a \<^verbatim>\<open>null\<close> sender is no key of the
  dictionary and is rendered by the f-string as \<^verbatim>\<open>None\<close>.
\<close>

definition lookup_sender :: "(string \<times> string) list \<Rightarrow> string option \<Rightarrow> string" where
  "lookup_sender ps sender_id =
     (case sender_id of
        None \<Rightarrow> ''None''
      | Some s \<Rightarrow> (case map_of ps s of None \<Rightarrow> s | Some n \<Rightarrow> n))"

text \<open>\<^verbatim>\<open>message[key]\<close> on an optional key: a missing key raises \<^verbatim>\<open>KeyError\<close>.\<close>

definition subscript :: "string \<Rightarrow> 'a json_field \<Rightarrow> error + 'a option" where
  "subscript key f =
     (case f of Absent \<Rightarrow> Inl (KeyError key) | Null \<Rightarrow> Inr None | Val v \<Rightarrow> Inr (Some v))"

text \<open>Truthiness of an optional string: \<^verbatim>\<open>None\<close> and \<^verbatim>\<open>""\<close> are false.\<close>

definition truthy :: "string option \<Rightarrow> bool" where
  "truthy v = (case v of None \<Rightarrow> False | Some s \<Rightarrow> s \<noteq> [])"

text \<open>The part of the loop body after the date divider (lines 108 to 139).\<close>

definition message_div :: "(string \<times> string) list \<Rightarrow> message \<Rightarrow> string \<Rightarrow> error + html_item" where
  "message_div ps message time_str =
     (case subscript ''sender'' (sender message) of
        Inl e \<Rightarrow> Inl e
      | Inr sender_id \<Rightarrow>
         (let sender_name = (if is_from_me message then ''Me'' else lookup_sender ps sender_id);
              message_class = (if is_from_me message then ''message-outgoing''
                               else ''message-incoming'')
          in (case subscript ''text'' (msg_text message) of
                Inl e \<Rightarrow> Inl e
              | Inr txt \<Rightarrow>
                 (let text_part = (if truthy txt then [TextP (the txt)] else [])
                  in (case subscript ''attachment_path'' (attachment_path message) of
                        Inl e \<Rightarrow> Inl e
                      | Inr att \<Rightarrow>
                         (let attachment_part =
                               (if truthy att
                                then (if is_image (the att)
                                      then [MessageImage (''../attachments/'' @ the att)]
                                      else [AttachmentLink (''../attachments/'' @ the att)
                                              (the att)])
                                else [])
                          in Inr (MessageDiv message_class sender_name time_str
                                    (text_part @ attachment_part))))))))"

text \<open>
  The loop over the sorted messages, with the loop variable \<^verbatim>\<open>current_date\<close>
  (\<open>None\<close> is Python's \<^verbatim>\<open>None\<close>). An exception leaves the loop at once and nothing is
  written.
\<close>

fun walk_messages ::
  "clock \<Rightarrow> (string \<times> string) list \<Rightarrow> string option \<Rightarrow> message list \<Rightarrow> error + html_item list"
where
  "walk_messages clk ps current_date [] = Inr []"
| "walk_messages clk ps current_date (message # rest) =
     (case clk (date message) of
        None \<Rightarrow> Inl TimestampError
      | Some (date_str, time_str) \<Rightarrow>
         (let divider = (if current_date \<noteq> Some date_str then [DateDivider date_str] else []);
              current_date' = (if current_date \<noteq> Some date_str then Some date_str
                               else current_date)
          in (case message_div ps message time_str of
                Inl e \<Rightarrow> Inl e
              | Inr block \<Rightarrow>
                 (case walk_messages clk ps current_date' rest of
                    Inl e \<Rightarrow> Inl e
                  | Inr items \<Rightarrow> Inr (divider @ block # items)))))"

text \<open>
  \<^verbatim>\<open>messages.sort\<close> sorts the list of the chat in place, so the function returns the
  chat with its messages sorted together with the page.
\<close>

definition create_chat_page :: "clock \<Rightarrow> chat \<Rightarrow> error + (chat \<times> chat_page)" where
  "create_chat_page clk c =
     (let name = chat_name c;
          msgs = sort_messages (messages c)
      in case walk_messages clk (participants c) None msgs of
           Inl e \<Rightarrow> Inl e
         | Inr items \<Rightarrow>
             Inr (c\<lparr>messages := msgs\<rparr>,
                  \<lparr>page_file = ''chat_'' @ chat_id c @ ''.html'',
                   page_title = name,
                   page_participants = join '', '' (map snd (participants c)),
                   page_items = items\<rparr>))"

subsection \<open>\_create\_index\_page\<close>

record index_entry =
  entry_href :: string
  entry_name :: string
  entry_preview :: string
  entry_date :: string

text \<open>
  \<^verbatim>\<open>chats.sort(key=lambda c: c['last_message_date'], reverse=True)\<close>: the keys are
  computed for all chats before any comparison, so one chat without the key raises.
\<close>

definition sort_chats :: "chat list \<Rightarrow> error + chat list" where
  "sort_chats chats =
     (if list_ex (\<lambda>c. last_message_date c = None) chats
      then Inl (KeyError ''last_message_date'')
      else Inr (py_sorted (\<lambda>c. the (last_message_date c)) True chats))"

text \<open>The \<^verbatim>\<open>for msg in sorted_messages\<close> loop with its \<^verbatim>\<open>break\<close>.\<close>

fun find_last_message :: "message list \<Rightarrow> error + string" where
  "find_last_message [] = Inr []"
| "find_last_message (msg # rest) =
     (case subscript ''text'' (msg_text msg) of
        Inl e \<Rightarrow> Inl e
      | Inr txt \<Rightarrow>
          if truthy txt
          then Inr (if length (the txt) > 50 then take 50 (the txt) @ ''...'' else the txt)
          else find_last_message rest)"

definition last_message_preview :: "message list \<Rightarrow> error + string" where
  "last_message_preview msgs =
     (if msgs \<noteq> [] then find_last_message (py_sorted date True msgs) else Inr [])"

definition index_entry_of :: "clock \<Rightarrow> chat \<Rightarrow> error + index_entry" where
  "index_entry_of clk c =
     (case last_message_date c of
        None \<Rightarrow> Inl (KeyError ''last_message_date'')
      | Some t \<Rightarrow>
          (case clk t of
             None \<Rightarrow> Inl TimestampError
           | Some (date_str, time_str) \<Rightarrow>
               (case last_message_preview (messages c) of
                  Inl e \<Rightarrow> Inl e
                | Inr last_message \<Rightarrow>
                    Inr \<lparr>entry_href = ''chats/chat_'' @ chat_id c @ ''.html'',
                         entry_name = chat_name c,
                         entry_preview = last_message,
                         entry_date = date_str @ '' '' @ time_str\<rparr>)))"

fun index_entries :: "clock \<Rightarrow> chat list \<Rightarrow> error + index_entry list" where
  "index_entries clk [] = Inr []"
| "index_entries clk (c # cs) =
     (case index_entry_of clk c of
        Inl e \<Rightarrow> Inl e
      | Inr entry \<Rightarrow>
          (case index_entries clk cs of Inl e \<Rightarrow> Inl e | Inr es \<Rightarrow> Inr (entry # es)))"

definition create_index_page :: "clock \<Rightarrow> chat list \<Rightarrow> error + index_entry list" where
  "create_index_page clk chats =
     (case sort_chats chats of Inl e \<Rightarrow> Inl e | Inr sorted_chats \<Rightarrow> index_entries clk sorted_chats)"

subsection \<open>create\_website\<close>

fun create_chat_pages :: "clock \<Rightarrow> chat list \<Rightarrow> error + (chat list \<times> chat_page list)" where
  "create_chat_pages clk [] = Inr ([], [])"
| "create_chat_pages clk (c # cs) =
     (case create_chat_page clk c of
        Inl e \<Rightarrow> Inl e
      | Inr (c', page) \<Rightarrow>
          (case create_chat_pages clk cs of
             Inl e \<Rightarrow> Inl e
           | Inr (cs', pages) \<Rightarrow> Inr (c' # cs', page # pages)))"

definition create_website :: "clock \<Rightarrow> chat list \<Rightarrow> error + (chat_page list \<times> index_entry list)" where
  "create_website clk chat_files =
     (case create_chat_pages clk chat_files of
        Inl e \<Rightarrow> Inl e
      | Inr (chat_data, pages) \<Rightarrow>
          (case create_index_page clk chat_data of
             Inl e \<Rightarrow> Inl e
           | Inr index \<Rightarrow> Inr (pages, index)))"

section \<open>Concrete inputs\<close>

text \<open>The chat of the naming example: four participants, no display name.\<close>

definition four_people :: chat where
  "four_people =
     \<lparr>chat_id = ''7'', display_name = None,
      participants = [(''1'', ''Alice''), (''2'', ''Bob''), (''3'', ''Carol''), (''4'', ''Dave'')],
      messages = [], last_message_date = Some 0\<rparr>"

text \<open>A chat in which two participants carry the display name \<^verbatim>\<open>"Me"\<close>.\<close>

definition two_me :: chat where
  "two_me =
     \<lparr>chat_id = ''8'', display_name = None,
      participants = [(''1'', ''Me''), (''2'', ''Bob''), (''3'', ''Me''), (''4'', ''Dave''),
                      (''5'', ''Eve'')],
      messages = [], last_message_date = Some 0\<rparr>"



section \<open>The index order in the words of the specification\<close>

text \<open>
  The specification's last-message timestamp of a chat: the largest timestamp of its
  messages, undefined for a chat without messages. Its index order: descending in that
  timestamp, chats without messages after all others.
\<close>

definition spec_last_message_timestamp :: "chat \<Rightarrow> int option" where
  "spec_last_message_timestamp c =
     (case map date (messages c) of [] \<Rightarrow> None | d # ds \<Rightarrow> Some (fold max ds d))"

fun spec_not_after :: "int option \<Rightarrow> int option \<Rightarrow> bool" where
  "spec_not_after a None = True"
| "spec_not_after None (Some b) = False"
| "spec_not_after (Some a) (Some b) = (b \<le> a)"

definition spec_index_ordered :: "chat list \<Rightarrow> bool" where
  "spec_index_ordered cs =
     sorted_wrt (\<lambda>a b. spec_not_after (spec_last_message_timestamp a)
                          (spec_last_message_timestamp b)) cs"

section \<open>Concrete chats for the index\<close>

definition plain_message :: "int \<Rightarrow> string \<Rightarrow> message" where
  "plain_message t s =
     \<lparr>sender = Val ''1'', date = t, is_from_me = False, msg_text = Val s,
      attachment_path = Null\<rparr>"

definition chat_without_messages :: chat where
  "chat_without_messages =
     \<lparr>chat_id = ''a'', display_name = Some ''A'', participants = [(''1'', ''Alice'')],
      messages = [], last_message_date = Some 500\<rparr>"

definition chat_at_300 :: chat where
  "chat_at_300 =
     \<lparr>chat_id = ''b'', display_name = Some ''B'', participants = [(''1'', ''Alice'')],
      messages = [plain_message 300 ''hello''], last_message_date = Some 300\<rparr>"

definition chat_stale_900 :: chat where
  "chat_stale_900 =
     \<lparr>chat_id = ''c'', display_name = Some ''C'', participants = [(''1'', ''Alice'')],
      messages = [plain_message 100 ''old''], last_message_date = Some 900\<rparr>"

definition chat_stale_50 :: chat where
  "chat_stale_50 =
     \<lparr>chat_id = ''d'', display_name = Some ''D'', participants = [(''1'', ''Alice'')],
      messages = [plain_message 200 ''new''], last_message_date = Some 50\<rparr>"



section \<open>Vocabulary of the statements\<close>

text \<open>
  A message has text when its \<^verbatim>\<open>text\<close> key holds a non-empty string; \<open>text_of\<close> is
  that string.
\<close>

definition has_text :: "message \<Rightarrow> bool" where
  "has_text m = (case msg_text m of Val s \<Rightarrow> s \<noteq> [] | _ \<Rightarrow> False)"

definition text_of :: "message \<Rightarrow> string" where
  "text_of m = (case msg_text m of Val s \<Rightarrow> s | _ \<Rightarrow> [])"

section \<open>Concrete messages for the preview\<close>

definition sixty :: string where
  "sixty = ''123456789012345678901234567890123456789012345678901234567890''"

definition preview_messages :: "message list" where
  "preview_messages =
     [plain_message 100 ''first'',
      (plain_message 300 [])\<lparr>msg_text := Null\<rparr>,
      plain_message 200 ''same second, earlier in the list'',
      plain_message 300 [],
      plain_message 200 sixty]"

definition silent_messages :: "message list" where
  "silent_messages = [(plain_message 300 [])\<lparr>msg_text := Null\<rparr>, plain_message 200 []]"



section \<open>Vocabulary of the page statements\<close>

text \<open>
  \<open>date_str clk m\<close> is the \<^verbatim>\<open>'%Y-%m-%d'\<close> calendar date of a message under the clock.
  A message is renderable when the clock can represent its timestamp and its dictionary
  has the keys \<^verbatim>\<open>sender\<close>, \<^verbatim>\<open>text\<close> and \<^verbatim>\<open>attachment_path\<close>, whatever they hold.
  \<open>date_dividers\<close> reads a page back: for each message block, in order, the label of
  the date divider placed directly before it, if there is one.
\<close>

definition date_str :: "clock \<Rightarrow> message \<Rightarrow> string" where
  "date_str clk m = (case clk (date m) of None \<Rightarrow> [] | Some (d, t) \<Rightarrow> d)"

definition renderable :: "clock \<Rightarrow> message \<Rightarrow> bool" where
  "renderable clk m =
     (clk (date m) \<noteq> None \<and> sender m \<noteq> Absent \<and> msg_text m \<noteq> Absent
      \<and> attachment_path m \<noteq> Absent)"

fun date_dividers :: "html_item list \<Rightarrow> string option list" where
  "date_dividers [] = []"
| "date_dividers (DateDivider d # MessageDiv c s t b # rest) = Some d # date_dividers rest"
| "date_dividers (DateDivider d # rest) = date_dividers rest"
| "date_dividers (MessageDiv c s t b # rest) = None # date_dividers rest"

section \<open>Concrete chats and messages for the chat page\<close>

definition two_days :: chat where
  "two_days =
     \<lparr>chat_id = ''9'', display_name = None,
      participants = [(''1'', ''Alice''), (''2'', ''Me'')],
      messages = [plain_message 1700010000 ''after midnight'',
                  plain_message 1700000000 ''evening'',
                  plain_message 1700003000 ''later that evening''],
      last_message_date = Some 1700010000\<rparr>"

definition no_text_key :: message where
  "no_text_key =
     \<lparr>sender = Val ''1'', date = 1700000000, is_from_me = False, msg_text = Absent,
      attachment_path = Null\<rparr>"

definition no_attachment_key :: message where
  "no_attachment_key =
     \<lparr>sender = Val ''1'', date = 1700000000, is_from_me = False, msg_text = Val ''hi'',
      attachment_path = Absent\<rparr>"

definition no_sender_key :: message where
  "no_sender_key =
     \<lparr>sender = Absent, date = 1700000000, is_from_me = True, msg_text = Val ''hi'',
      attachment_path = Null\<rparr>"

definition bare_message :: message where
  "bare_message =
     \<lparr>sender = Null, date = 1700000000, is_from_me = True, msg_text = Null,
      attachment_path = Val []\<rparr>"



section \<open>Vocabulary of the output statements\<close>

text \<open>
  \<open>time_str clk m\<close> is the \<^verbatim>\<open>'%I:%M %p'\<close> time of a message under the clock.
  \<open>message_blocks\<close> reads a page back: its message blocks, in order, without the date
  dividers. \<open>href_of\<close> is the link under which the index lists a chat.
\<close>

definition time_str :: "clock \<Rightarrow> message \<Rightarrow> string" where
  "time_str clk m = (case clk (date m) of None \<Rightarrow> [] | Some (d, t) \<Rightarrow> t)"

fun is_message_div :: "html_item \<Rightarrow> bool" where
  "is_message_div (MessageDiv c s t b) = True"
| "is_message_div (DateDivider d) = False"

definition message_blocks :: "html_item list \<Rightarrow> html_item list" where
  "message_blocks items = filter is_message_div items"

definition href_of :: "chat \<Rightarrow> string" where
  "href_of c = ''chats/chat_'' @ chat_id c @ ''.html''"

text \<open>A chat for the index, with the given identifier and messages.\<close>

definition preview_chat :: "string \<Rightarrow> message list \<Rightarrow> chat" where
  "preview_chat ident msgs =
     \<lparr>chat_id = ident, display_name = Some ''P'', participants = [(''1'', ''Alice'')],
      messages = msgs, last_message_date = Some 300\<rparr>"

section \<open>Properties of utils.py\<close>

text \<open>
  C1. The timestamp normalizer is the piecewise function: above the threshold
  \<open>978307200 * 10^6\<close> the result is the floor of the raw value divided by \<open>10^9\<close> (as a
  real-number division) plus \<open>978307200\<close>; at or below the threshold it is the raw value
  plus \<open>978307200\<close>.
\<close>

theorem convert_date_piecewise:
  "(raw > 978307200 * 10 ^ 6 \<longrightarrow>
      convert_date raw = \<lfloor>real_of_int raw / 10 ^ 9\<rfloor> + 978307200) \<and>
   (raw \<le> 978307200 * 10 ^ 6 \<longrightarrow> convert_date raw = raw + 978307200)"
proof -
  have fl: "\<lfloor>real_of_int raw / 10 ^ 9\<rfloor> = raw div 10 ^ 9"
    using floor_divide_of_int_eq [of raw "10 ^ 9", where ?'a = real] by simp
  show ?thesis
    unfolding convert_date_def fl by (simp add: epoch_def)
qed

theorem convert_date_piecewise_witness:
  "convert_date 700000000123456789 = 1678307200 \<and> convert_date 500000000 = 1478307200
   \<and> convert_date 978307200000000 = 978308178307200"
  using convert_date_piecewise [of 700000000123456789]
    convert_date_piecewise [of 500000000]
    convert_date_piecewise [of 978307200000000]
  by simp

text \<open>
  C2, as stated, fails: conversion is total, but it is not monotone across the
  threshold. The largest legacy value \<open>978307200000000\<close> converts to a larger result than
  its successor, the smallest modern value.
\<close>

theorem convert_date_not_monotone_counterexample:
  "(978307200000000::int) \<le> 978307200000001 \<and>
   \<not> convert_date 978307200000000 \<le> convert_date 978307200000001"
  by (simp add: convert_date_def epoch_def)

text \<open>
  C2, amended. For raw timestamps \<open>r1 \<le> r2\<close> the conversion keeps the order exactly
  when both are legacy values, or both are modern values, or \<open>r1\<close> is at most the whole
  seconds of \<open>r2\<close>. In particular it is monotone on each of the two encodings.
\<close>

theorem convert_date_order:
  "r1 \<le> r2 \<Longrightarrow>
     (convert_date r1 \<le> convert_date r2) =
     (r2 \<le> 978307200 * 10 ^ 6 \<or> 978307200 * 10 ^ 6 < r1 \<or> r1 \<le> r2 div 10 ^ 9)"
proof -
  assume le: "r1 \<le> r2"
  have mono: "r1 div 10 ^ 9 \<le> r2 div 10 ^ 9"
    using le by (intro zdiv_mono1) simp_all
  show ?thesis
    using le mono unfolding convert_date_def epoch_def by auto
qed

theorem convert_date_order_witness:
  "(5::int) \<le> 10 \<and> convert_date 5 \<le> convert_date 10
   \<and> (978307200000001::int) \<le> 999999999999999999
   \<and> convert_date 978307200000001 \<le> convert_date 999999999999999999"
  using convert_date_order [of 5 10] convert_date_order [of 978307200000001 999999999999999999]
  by simp

text \<open>
  C9. The table \<open>formats\<close> lists the double extensions \<^verbatim>\<open>.tar.gz\<close>, \<^verbatim>\<open>.tar.bz2\<close> and
  \<^verbatim>\<open>.tar.xz\<close>, but \<^verbatim>\<open>Path.suffix\<close> is only the part from the last dot on, so a file
  with one of these extensions is rejected with the error that names \<^verbatim>\<open>.gz\<close>,
  \<^verbatim>\<open>.bz2\<close> or \<^verbatim>\<open>.xz\<close>. The single extension \<^verbatim>\<open>.tgz\<close> is accepted.
\<close>

theorem get_archive_format_double_suffix:
  "get_archive_format [''backup.tar.gz''] =
     Inl (ValueError ''Unsupported archive format: .gz. Supported formats are: .zip, .tar, .tgz, .tar.gz, .tbz, .tar.bz2, .txz, .tar.xz'')
   \<and> get_archive_format [''backup.tar.bz2''] =
     Inl (ValueError ''Unsupported archive format: .bz2. Supported formats are: .zip, .tar, .tgz, .tar.gz, .tbz, .tar.bz2, .txz, .tar.xz'')
   \<and> get_archive_format [''backup.tar.xz''] =
     Inl (ValueError ''Unsupported archive format: .xz. Supported formats are: .zip, .tar, .tgz, .tar.gz, .tbz, .tar.bz2, .txz, .tar.xz'')
   \<and> get_archive_format [''backup.tgz''] = Inr ''gztar''"
  by code_simp

section \<open>Properties of html\_creator.py\<close>

subsection \<open>Chat names\<close>

lemma list_remove_remove1: "list_remove v xs = remove1 v xs"
  by (induction xs) auto

lemma remaining_participants_remove1:
  "remaining_participants c = remove1 ''Me'' (map snd (participants c))"
  by (auto simp: remaining_participants_def Let_def list_remove_remove1 remove1_idem)

lemma str_int_4: "str_int 4 = ''4''"
  by code_simp

text \<open>
  C5, as stated, fails on its own example: the source puts the three dots directly
  after the third name, with no space before them.
\<close>

theorem chat_name_space_counterexample:
  "chat_name four_people = ''Alice, Bob, Carol... (4 people)'' \<and>
   chat_name four_people \<noteq> ''Alice, Bob, Carol ... (4 people)''"
  by code_simp

text \<open>
  C5, amended. A non-empty display name is the chat name. Otherwise, with \<open>names\<close> the
  participant display names after the removal of \<^verbatim>\<open>"Me"\<close>: no name gives
  \<^verbatim>\<open>"Empty Chat"\<close>, one name gives that name, two or three names are joined with
  \<^verbatim>\<open>", "\<close>, and more than three give the first three joined with \<^verbatim>\<open>", "\<close>, followed
  by \<^verbatim>\<open>"... ("\<close>, the number of names and \<^verbatim>\<open>" people)"\<close>.
\<close>

theorem chat_name_rule:
  fixes c :: chat
  defines "names \<equiv> remove1 ''Me'' (map snd (participants c))"
  shows
  "(\<forall>n. display_name c = Some n \<and> n \<noteq> [] \<longrightarrow> chat_name c = n) \<and>
   (display_name c = None \<or> display_name c = Some [] \<longrightarrow>
      (names = [] \<longrightarrow> chat_name c = ''Empty Chat'') \<and>
      (length names = 1 \<longrightarrow> chat_name c = hd names) \<and>
      (length names = 2 \<or> length names = 3 \<longrightarrow> chat_name c = join '', '' names) \<and>
      (length names > 3 \<longrightarrow>
         chat_name c =
           join '', '' (take 3 names) @ ''... ('' @ str_int (int (length names)) @ '' people)''))"
proof -
  have rem: "remaining_participants c = names"
    by (simp add: names_def remaining_participants_remove1)
  have one: "length names = 1 \<Longrightarrow> names ! 0 = hd names"
    by (cases names) simp_all
  show ?thesis
    unfolding chat_name_def get_chat_name_def rem Let_def
    using one by (auto split: option.splits)
qed

theorem chat_name_rule_witness:
  "chat_name four_people = ''Alice, Bob, Carol... (4 people)''
   \<and> chat_name (four_people\<lparr>display_name := Some ''Family''\<rparr>) = ''Family''
   \<and> chat_name (four_people\<lparr>participants := [(''1'', ''Me'')]\<rparr>) = ''Empty Chat''
   \<and> chat_name (four_people\<lparr>participants := [(''1'', ''Me''), (''2'', ''Bob'')]\<rparr>) = ''Bob''
   \<and> chat_name (four_people\<lparr>display_name := Some [],
        participants := [(''1'', ''Alice''), (''2'', ''Bob'')]\<rparr>) = ''Alice, Bob''"
  using chat_name_rule [of four_people]
    chat_name_rule [of "four_people\<lparr>display_name := Some ''Family''\<rparr>"]
    chat_name_rule [of "four_people\<lparr>participants := [(''1'', ''Me'')]\<rparr>"]
    chat_name_rule [of "four_people\<lparr>participants := [(''1'', ''Me''), (''2'', ''Bob'')]\<rparr>"]
    chat_name_rule [of "four_people\<lparr>display_name := Some [],
        participants := [(''1'', ''Alice''), (''2'', ''Bob'')]\<rparr>"]
  by (simp add: four_people_def str_int_4)

text \<open>
  C10. The removal takes out exactly the first \<^verbatim>\<open>"Me"\<close> of the display names: every
  further \<^verbatim>\<open>"Me"\<close> stays and is counted, all other names keep their number, and the
  number shown in the group form is the number of names left after the removal, not
  the size of the participant map.
\<close>

theorem remaining_participants_one_me:
  fixes c :: chat
  defines "names \<equiv> map snd (participants c)"
  defines "rest \<equiv> remaining_participants c"
  shows
  "rest = remove1 ''Me'' names \<and>
   count_list rest ''Me'' = count_list names ''Me'' - 1 \<and>
   (\<forall>n. n \<noteq> ''Me'' \<longrightarrow> count_list rest n = count_list names n) \<and>
   length rest = length names - (if ''Me'' \<in> set names then 1 else 0) \<and>
   (3 < length rest \<longrightarrow>
      get_chat_name c =
        join '', '' (take 3 rest) @ ''... ('' @ str_int (int (length rest)) @ '' people)'')"
proof -
  have r: "rest = remove1 ''Me'' names"
    by (simp add: rest_def names_def remaining_participants_remove1)
  have cnt: "count_list (remove1 v xs) w = count_list xs w - (if v = w \<and> v \<in> set xs then 1 else 0)"
    for v w :: string and xs
    by (induction xs) auto
  have len: "length rest = length names - (if ''Me'' \<in> set names then 1 else 0)"
    unfolding r by (simp add: length_remove1)
  have nm: "3 < length rest \<longrightarrow>
      get_chat_name c =
        join '', '' (take 3 rest) @ ''... ('' @ str_int (int (length rest)) @ '' people)''"
    unfolding get_chat_name_def rest_def Let_def by auto
  have c1: "count_list rest ''Me'' = count_list names ''Me'' - 1"
    unfolding r cnt by (auto simp: count_list_0_iff)
  have c2: "\<forall>n. n \<noteq> ''Me'' \<longrightarrow> count_list rest n = count_list names n"
    unfolding r cnt by auto
  show ?thesis
    using r c1 c2 len nm by blast
qed

theorem remaining_participants_one_me_witness:
  "remaining_participants two_me = [''Bob'', ''Me'', ''Dave'', ''Eve'']
   \<and> get_chat_name two_me = ''Bob, Me, Dave... (4 people)''"
proof -
  have e: "remove1 ''Me'' (map snd (participants two_me)) = [''Bob'', ''Me'', ''Dave'', ''Eve'']"
    by (simp add: two_me_def)
  show ?thesis
    using remaining_participants_one_me [of two_me] e by (simp add: str_int_4)
qed

subsection \<open>Sorting\<close>

lemma py_sorted_mset: "mset (py_sorted key reverse xs) = mset xs"
  by (simp add: py_sorted_def)

lemma py_sorted_ascending: "sorted (map key (py_sorted key False xs))"
  by (simp add: py_sorted_def)

lemma py_sorted_descending: "sorted (rev (map key (py_sorted key True xs)))"
  by (simp add: py_sorted_def rev_map)

lemma py_sorted_stable:
  "filter (\<lambda>x. key x = k) (py_sorted key reverse xs) = filter (\<lambda>x. key x = k) xs"
proof (cases reverse)
  case True
  have "filter (\<lambda>x. key x = k) (rev (sort_key key (rev xs)))
          = rev (filter (\<lambda>x. key x = k) (sort_key key (rev xs)))"
    by (simp add: rev_filter)
  also have "\<dots> = rev (filter (\<lambda>x. key x = k) (rev xs))"
    by (simp only: sort_key_stable)
  also have "\<dots> = filter (\<lambda>x. key x = k) xs"
    by (simp add: rev_filter)
  finally show ?thesis using True by (simp add: py_sorted_def)
next
  case False
  then show ?thesis by (simp add: py_sorted_def sort_key_stable)
qed

lemma sort_messages_props:
  "sorted (map date (sort_messages msgs)) \<and>
   mset (sort_messages msgs) = mset msgs \<and>
   (\<forall>t. filter (\<lambda>m. date m = t) (sort_messages msgs) = filter (\<lambda>m. date m = t) msgs)"
  unfolding sort_messages_def
  by (simp add: py_sorted_mset py_sorted_ascending py_sorted_stable)

subsection \<open>Sorting the chats\<close>

lemma sort_chats_run:
  assumes "\<forall>c\<in>set chats. last_message_date c \<noteq> None"
  shows "\<exists>out. sort_chats chats = Inr out \<and>
           mset out = mset chats \<and>
           sorted (rev (map (\<lambda>c. the (last_message_date c)) out)) \<and>
           (\<forall>t. filter (\<lambda>c. last_message_date c = Some t) out
                = filter (\<lambda>c. last_message_date c = Some t) chats)"
proof -
  let ?key = "\<lambda>c. the (last_message_date c)"
  let ?out = "py_sorted ?key True chats"
  have run: "sort_chats chats = Inr ?out"
    using assms by (simp add: sort_chats_def list_ex_iff)
  have set_out: "set ?out = set chats"
    using py_sorted_mset [of ?key True chats] by (metis set_mset_mset)
  have stable: "filter (\<lambda>c. last_message_date c = Some t) ?out
                = filter (\<lambda>c. last_message_date c = Some t) chats" for t
  proof -
    have "filter (\<lambda>c. last_message_date c = Some t) xs = filter (\<lambda>c. ?key c = t) xs"
      if "set xs = set chats" for xs
      using that assms by (intro filter_cong) auto
    then show ?thesis
      using set_out py_sorted_stable [of ?key t True chats] by simp
  qed
  show ?thesis
    using run py_sorted_mset [of ?key True chats] py_sorted_descending [of ?key chats] stable
    by blast
qed

subsection \<open>Last-message preview\<close>

lemma find_last_message_find:
  "\<forall>m\<in>set ms. msg_text m \<noteq> Absent \<Longrightarrow>
   find_last_message ms =
     Inr (case List.find has_text ms of
            None \<Rightarrow> []
          | Some m \<Rightarrow> if length (text_of m) > 50 then take 50 (text_of m) @ ''...''
                      else text_of m)"
proof (induction ms)
  case Nil
  then show ?case by simp
next
  case (Cons m ms)
  then show ?case
    by (cases "msg_text m")
       (simp_all add: subscript_def truthy_def has_text_def text_of_def)
qed

lemma last_message_preview_find:
  assumes "\<forall>m\<in>set msgs. msg_text m \<noteq> Absent"
  shows
  "last_message_preview msgs =
     Inr (case List.find has_text (py_sorted date True msgs) of
            None \<Rightarrow> []
          | Some m \<Rightarrow> if length (text_of m) > 50 then take 50 (text_of m) @ ''...''
                      else text_of m) \<and>
   sorted (rev (map date (py_sorted date True msgs))) \<and>
   mset (py_sorted date True msgs) = mset msgs \<and>
   (\<forall>t. filter (\<lambda>m. date m = t) (py_sorted date True msgs) = filter (\<lambda>m. date m = t) msgs)"
proof -
  have "set (py_sorted date True msgs) = set msgs"
    using py_sorted_mset [of date True msgs] by (metis set_mset_mset)
  then have present: "\<forall>m\<in>set (py_sorted date True msgs). msg_text m \<noteq> Absent"
    using assms by simp
  have "last_message_preview msgs =
     Inr (case List.find has_text (py_sorted date True msgs) of
            None \<Rightarrow> []
          | Some m \<Rightarrow> if length (text_of m) > 50 then take 50 (text_of m) @ ''...''
                      else text_of m)"
  proof (cases "msgs = []")
    case True
    then show ?thesis by (simp add: last_message_preview_def py_sorted_def)
  next
    case False
    then show ?thesis
      by (simp add: last_message_preview_def find_last_message_find [OF present])
  qed
  then show ?thesis
    by (simp add: py_sorted_mset py_sorted_descending py_sorted_stable)
qed

subsection \<open>The chat page\<close>

lemma message_div_total:
  assumes "sender m \<noteq> Absent" "msg_text m \<noteq> Absent" "attachment_path m \<noteq> Absent"
  shows "\<exists>cls name body. message_div ps m t = Inr (MessageDiv cls name t body)"
  using assms
  by (cases "sender m"; cases "msg_text m"; cases "attachment_path m")
     (simp_all add: message_div_def subscript_def Let_def)

lemma message_div_shape:
  "message_div ps m t = Inr block \<Longrightarrow> \<exists>cls name body. block = MessageDiv cls name t body"
  by (cases "sender m"; cases "msg_text m"; cases "attachment_path m")
     (auto simp: message_div_def subscript_def Let_def)

lemma walk_messages_total:
  "\<forall>m\<in>set ms. renderable clk m \<Longrightarrow> \<exists>items. walk_messages clk ps cur ms = Inr items"
proof (induction ms arbitrary: cur)
  case Nil
  then show ?case by simp
next
  case (Cons m ms)
  from Cons.prems obtain d t where clk: "clk (date m) = Some (d, t)"
    by (auto simp: renderable_def)
  from Cons.prems obtain cls name body
    where blk: "message_div ps m t = Inr (MessageDiv cls name t body)"
    using message_div_total [of m ps t] by (auto simp: renderable_def)
  from Cons.prems have rest: "\<forall>x\<in>set ms. renderable clk x" by simp
  obtain items where
    "walk_messages clk ps (if cur \<noteq> Some d then Some d else cur) ms = Inr items"
    using Cons.IH [OF rest] by blast
  then show ?case
    by (simp add: clk blk Let_def)
qed

lemma walk_messages_dividers:
  "walk_messages clk ps cur ms = Inr items \<Longrightarrow>
   length (date_dividers items) = length ms \<and>
   (\<forall>i<length ms.
      date_dividers items ! i =
        (if (if i = 0 then cur \<noteq> Some (date_str clk (ms ! 0))
             else date_str clk (ms ! i) \<noteq> date_str clk (ms ! (i - 1)))
         then Some (date_str clk (ms ! i)) else None))"
proof (induction ms arbitrary: cur items)
  case Nil
  then show ?case by simp
next
  case (Cons m ms)
  from Cons.prems obtain d t where clk: "clk (date m) = Some (d, t)"
    by (auto split: option.splits)
  have ds: "date_str clk m = d"
    by (simp add: date_str_def clk)
  let ?cur' = "if cur \<noteq> Some d then Some d else cur"
  have cur': "?cur' = Some d" by simp
  from Cons.prems clk obtain block rest where
    blk: "message_div ps m t = Inr block" and
    rest: "walk_messages clk ps ?cur' ms = Inr rest" and
    items: "items = (if cur \<noteq> Some d then [DateDivider d] else []) @ block # rest"
    by (auto simp: Let_def split: sum.splits)
  obtain cls name body where shape: "block = MessageDiv cls name t body"
    using message_div_shape [OF blk] by blast
  have hd: "date_dividers items = (if cur \<noteq> Some d then Some d else None) # date_dividers rest"
    by (simp add: items shape)
  note IH = Cons.IH [OF rest, unfolded cur']
  show ?case
  proof (intro conjI allI impI)
    show "length (date_dividers items) = length (m # ms)"
      using IH by (simp add: hd)
  next
    fix i assume i: "i < length (m # ms)"
    show "date_dividers items ! i =
        (if (if i = 0 then cur \<noteq> Some (date_str clk ((m # ms) ! 0))
             else date_str clk ((m # ms) ! i) \<noteq> date_str clk ((m # ms) ! (i - 1)))
         then Some (date_str clk ((m # ms) ! i)) else None)"
    proof (cases i)
      case 0
      then show ?thesis by (simp add: hd ds)
    next
      case (Suc j)
      with i have j: "j < length ms" by simp
      from IH j have
        "date_dividers rest ! j =
          (if (if j = 0 then Some d \<noteq> Some (date_str clk (ms ! 0))
               else date_str clk (ms ! j) \<noteq> date_str clk (ms ! (j - 1)))
           then Some (date_str clk (ms ! j)) else None)"
        by blast
      then show ?thesis
        using Suc by (cases j) (auto simp: hd ds)
    qed
  qed
qed

text \<open>
  C8. When every message of the chat is renderable, the page is produced from the
  sorted messages, and in it the first message has a date divider, and any later
  message has a date divider exactly when its calendar date differs from the calendar
  date of the message before it; the divider carries the date of the message it
  precedes.
\<close>

theorem date_divider_exactly_on_new_date:
  assumes "\<forall>m\<in>set (messages c). renderable clk m"
  shows "\<exists>c' page.
           create_chat_page clk c = Inr (c', page) \<and>
           messages c' = sort_messages (messages c) \<and>
           length (date_dividers (page_items page)) = length (messages c') \<and>
           (\<forall>i<length (messages c').
              date_dividers (page_items page) ! i =
                (if i = 0 \<or> date_str clk (messages c' ! i) \<noteq> date_str clk (messages c' ! (i - 1))
                 then Some (date_str clk (messages c' ! i)) else None))"
proof -
  let ?ms = "sort_messages (messages c)"
  have "set ?ms = set (messages c)"
    using py_sorted_mset [of date False "messages c"]
    unfolding sort_messages_def by (metis set_mset_mset)
  then have ok: "\<forall>m\<in>set ?ms. renderable clk m"
    using assms by simp
  obtain items where run: "walk_messages clk (participants c) None ?ms = Inr items"
    using walk_messages_total [OF ok] by blast
  have page: "create_chat_page clk c =
      Inr (c\<lparr>messages := ?ms\<rparr>,
           \<lparr>page_file = ''chat_'' @ chat_id c @ ''.html'',
            page_title = chat_name c,
            page_participants = join '', '' (map snd (participants c)),
            page_items = items\<rparr>)"
    by (simp add: create_chat_page_def Let_def run)
  have "length (date_dividers items) = length ?ms \<and>
     (\<forall>i<length ?ms.
        date_dividers items ! i =
          (if i = 0 \<or> date_str clk (?ms ! i) \<noteq> date_str clk (?ms ! (i - 1))
           then Some (date_str clk (?ms ! i)) else None))"
    using walk_messages_dividers [OF run] by auto
  then show ?thesis
    using page by simp
qed

theorem date_divider_exactly_on_new_date_witness:
  "map_sum id (\<lambda>r. date_dividers (page_items (snd r))) (create_chat_page utc_clock two_days)
     = Inr [Some ''2023-11-14'', None, Some ''2023-11-15'']"
proof -
  have h: "\<forall>m\<in>set (messages two_days). renderable utc_clock m"
    by code_simp
  have e: "map_sum id (\<lambda>r. date_dividers (page_items (snd r)))
             (create_chat_page utc_clock two_days)
     = Inr [Some ''2023-11-14'', None, Some ''2023-11-15'']"
    by code_simp
  from date_divider_exactly_on_new_date [OF h] e show ?thesis by simp
qed


text \<open>
  C6, as stated, fails for a missing field: the source reads \<^verbatim>\<open>message['text']\<close>,
  \<^verbatim>\<open>message['attachment_path']\<close> and \<^verbatim>\<open>message['sender']\<close> by subscript, so a message
  dictionary without one of these keys raises \<^verbatim>\<open>KeyError\<close> and no page is written,
  also for the sender of a message that is from the owner.
\<close>

theorem missing_key_raises_counterexample:
  "create_chat_page utc_clock (two_days\<lparr>messages := [no_text_key]\<rparr>) = Inl (KeyError ''text'')
   \<and> create_chat_page utc_clock (two_days\<lparr>messages := [no_attachment_key]\<rparr>)
       = Inl (KeyError ''attachment_path'')
   \<and> is_from_me no_sender_key
   \<and> create_chat_page utc_clock (two_days\<lparr>messages := [no_sender_key]\<rparr>)
       = Inl (KeyError ''sender'')"
  by code_simp

text \<open>
  C6, amended. For a message whose dictionary has the three keys, the message block is
  produced without error: a \<^verbatim>\<open>null\<close> or empty text gives no text paragraph, a
  \<^verbatim>\<open>null\<close> or empty attachment path gives no attachment element, and a message from
  the owner is labelled \<^verbatim>\<open>"Me"\<close> whatever its sender entry holds. The whole chat page is
  produced without error when every message is renderable.
\<close>

theorem empty_values_degrade:
  "(sender m \<noteq> Absent \<and> msg_text m \<noteq> Absent \<and> attachment_path m \<noteq> Absent \<longrightarrow>
      (\<exists>cls name body.
         message_div ps m t = Inr (MessageDiv cls name t body) \<and>
         (msg_text m = Null \<or> msg_text m = Val [] \<longrightarrow> (\<forall>s. TextP s \<notin> set body)) \<and>
         (attachment_path m = Null \<or> attachment_path m = Val [] \<longrightarrow>
            (\<forall>x\<in>set body. \<exists>s. x = TextP s)) \<and>
         (is_from_me m \<longrightarrow> name = ''Me'' \<and> cls = ''message-outgoing''))) \<and>
   ((\<forall>x\<in>set (messages c). renderable clk x) \<longrightarrow>
      (\<exists>c' page. create_chat_page clk c = Inr (c', page)))"
proof (intro conjI impI)
  assume keys: "sender m \<noteq> Absent \<and> msg_text m \<noteq> Absent \<and> attachment_path m \<noteq> Absent"
  then show "\<exists>cls name body.
         message_div ps m t = Inr (MessageDiv cls name t body) \<and>
         (msg_text m = Null \<or> msg_text m = Val [] \<longrightarrow> (\<forall>s. TextP s \<notin> set body)) \<and>
         (attachment_path m = Null \<or> attachment_path m = Val [] \<longrightarrow>
            (\<forall>x\<in>set body. \<exists>s. x = TextP s)) \<and>
         (is_from_me m \<longrightarrow> name = ''Me'' \<and> cls = ''message-outgoing'')"
    by (cases "sender m"; cases "msg_text m"; cases "attachment_path m")
       (auto simp: message_div_def subscript_def truthy_def Let_def)
next
  assume ok: "\<forall>x\<in>set (messages c). renderable clk x"
  have "set (sort_messages (messages c)) = set (messages c)"
    using py_sorted_mset [of date False "messages c"]
    unfolding sort_messages_def by (metis set_mset_mset)
  then have "\<forall>x\<in>set (sort_messages (messages c)). renderable clk x"
    using ok by simp
  then obtain items where
    "walk_messages clk (participants c) None (sort_messages (messages c)) = Inr items"
    using walk_messages_total by blast
  then show "\<exists>c' page. create_chat_page clk c = Inr (c', page)"
    by (simp add: create_chat_page_def Let_def)
qed

theorem empty_values_degrade_witness:
  "message_div [] bare_message ''10:13 PM''
     = Inr (MessageDiv ''message-outgoing'' ''Me'' ''10:13 PM'' [])
   \<and> \<not> isl (create_chat_page utc_clock (two_days\<lparr>messages := [bare_message]\<rparr>))"
proof -
  have k: "sender bare_message \<noteq> Absent \<and> msg_text bare_message \<noteq> Absent
           \<and> attachment_path bare_message \<noteq> Absent"
    by code_simp
  have v: "msg_text bare_message = Null" "attachment_path bare_message = Val []"
    "is_from_me bare_message"
    by (simp_all add: bare_message_def)
  have h: "\<forall>x\<in>set (messages (two_days\<lparr>messages := [bare_message]\<rparr>)). renderable utc_clock x"
    by code_simp
  from empty_values_degrade [of bare_message "[]" "''10:13 PM''"
         "two_days\<lparr>messages := [bare_message]\<rparr>" utc_clock] k v h
  obtain body c' page where
    div: "message_div [] bare_message ''10:13 PM''
            = Inr (MessageDiv ''message-outgoing'' ''Me'' ''10:13 PM'' body)" and
    no_text: "\<forall>s. TextP s \<notin> set body" and
    only_text: "\<forall>x\<in>set body. \<exists>s. x = TextP s" and
    page: "create_chat_page utc_clock (two_days\<lparr>messages := [bare_message]\<rparr>) = Inr (c', page)"
    by auto
  have "body = []"
    using no_text only_text by (cases body) auto
  then show ?thesis
    using div page by simp
qed

subsection \<open>The order of the messages on the chat page\<close>

lemma walk_messages_blocks:
  "walk_messages clk ps cur ms = Inr items \<Longrightarrow>
   map Inr (message_blocks items) = map (\<lambda>m. message_div ps m (time_str clk m)) ms"
proof (induction ms arbitrary: cur items)
  case Nil
  then show ?case by (simp add: message_blocks_def)
next
  case (Cons m ms)
  from Cons.prems obtain d t where clk: "clk (date m) = Some (d, t)"
    by (auto split: option.splits)
  let ?cur' = "if cur \<noteq> Some d then Some d else cur"
  from Cons.prems clk obtain block rest where
    blk: "message_div ps m t = Inr block" and
    rest: "walk_messages clk ps ?cur' ms = Inr rest" and
    items: "items = (if cur \<noteq> Some d then [DateDivider d] else []) @ block # rest"
    by (auto simp: Let_def split: sum.splits)
  obtain cls name body where shape: "block = MessageDiv cls name t body"
    using message_div_shape [OF blk] by blast
  have "message_blocks items = block # message_blocks rest"
    by (simp add: items shape message_blocks_def)
  then show ?case
    using Cons.IH [OF rest] blk by (simp add: time_str_def clk)
qed

lemma create_chat_page_run:
  "walk_messages clk (participants c) None (sort_messages (messages c)) = Inr items \<Longrightarrow>
   create_chat_page clk c =
      Inr (c\<lparr>messages := sort_messages (messages c)\<rparr>,
           \<lparr>page_file = ''chat_'' @ chat_id c @ ''.html'',
            page_title = chat_name c,
            page_participants = join '', '' (map snd (participants c)),
            page_items = items\<rparr>)"
  by (simp add: create_chat_page_def Let_def)

lemma renderable_sorted:
  "\<forall>m\<in>set (messages c). renderable clk m \<Longrightarrow>
   \<forall>m\<in>set (sort_messages (messages c)). renderable clk m"
proof -
  have "set (sort_messages (messages c)) = set (messages c)"
    using py_sorted_mset [of date False "messages c"]
    unfolding sort_messages_def by (metis set_mset_mset)
  then show "\<forall>m\<in>set (messages c). renderable clk m \<Longrightarrow>
   \<forall>m\<in>set (sort_messages (messages c)). renderable clk m"
    by simp
qed

text \<open>
  C3. For every chat whose messages are renderable, the chat page is produced, and the
  messages it is produced from are the messages of the chat in non-decreasing order of
  timestamp, messages of equal timestamp in their original relative order; the message
  blocks of the page are the blocks of these messages, in this order.
\<close>

theorem create_chat_page_sorted_stable:
  assumes "\<forall>m\<in>set (messages c). renderable clk m"
  shows "\<exists>c' page.
           create_chat_page clk c = Inr (c', page) \<and>
           sorted (map date (messages c')) \<and>
           mset (messages c') = mset (messages c) \<and>
           (\<forall>t. filter (\<lambda>m. date m = t) (messages c') = filter (\<lambda>m. date m = t) (messages c)) \<and>
           map Inr (message_blocks (page_items page))
             = map (\<lambda>m. message_div (participants c) m (time_str clk m)) (messages c')"
proof -
  let ?ms = "sort_messages (messages c)"
  obtain items where run: "walk_messages clk (participants c) None ?ms = Inr items"
    using walk_messages_total [OF renderable_sorted [OF assms]] by blast
  show ?thesis
    using create_chat_page_run [OF run] walk_messages_blocks [OF run]
      sort_messages_props [of "messages c"]
    by simp
qed

theorem create_chat_page_sorted_stable_witness:
  "map_sum id (\<lambda>r. map date (messages (fst r))) (create_chat_page utc_clock two_days)
     = Inr [1700000000, 1700003000, 1700010000]
   \<and> map_sum id (\<lambda>r. map (\<lambda>m. (date m, msg_text m)) (messages (fst r)))
        (create_chat_page utc_clock
           (two_days\<lparr>messages := [plain_message 7 ''b'', plain_message 9 ''c'',
                                   plain_message 7 ''a'', plain_message 3 ''d'']\<rparr>))
     = Inr [(3, Val ''d''), (7, Val ''b''), (7, Val ''a''), (9, Val ''c'')]"
proof -
  let ?ties = "two_days\<lparr>messages := [plain_message 7 ''b'', plain_message 9 ''c'',
                                   plain_message 7 ''a'', plain_message 3 ''d'']\<rparr>"
  have h1: "\<forall>m\<in>set (messages two_days). renderable utc_clock m"
    by code_simp
  have h2: "\<forall>m\<in>set (messages ?ties). renderable utc_clock m"
    by code_simp
  have e1: "map_sum id (\<lambda>r. map date (messages (fst r))) (create_chat_page utc_clock two_days)
     = Inr [1700000000, 1700003000, 1700010000]"
    by code_simp
  have e2: "map_sum id (\<lambda>r. map (\<lambda>m. (date m, msg_text m)) (messages (fst r)))
        (create_chat_page utc_clock ?ties)
     = Inr [(3, Val ''d''), (7, Val ''b''), (7, Val ''a''), (9, Val ''c'')]"
    by code_simp
  from create_chat_page_sorted_stable [OF h1] create_chat_page_sorted_stable [OF h2] e1 e2
  show ?thesis by simp
qed


subsection \<open>The index page\<close>

lemma index_entries_map:
  "\<forall>c\<in>set cs. \<exists>e. index_entry_of clk c = Inr e \<Longrightarrow>
   \<exists>es. index_entries clk cs = Inr es \<and> map Inr es = map (index_entry_of clk) cs"
proof (induction cs)
  case Nil
  then show ?case by simp
next
  case (Cons c cs)
  then obtain e where e: "index_entry_of clk c = Inr e" by auto
  from Cons obtain es where
    es: "index_entries clk cs = Inr es" "map Inr es = map (index_entry_of clk) cs"
    by auto
  show ?case
    by (simp add: e es)
qed

lemma index_entries_ok:
  "index_entries clk cs = Inr es \<Longrightarrow> \<forall>c\<in>set cs. \<exists>e. index_entry_of clk c = Inr e"
  by (induction cs arbitrary: es) (auto split: sum.splits)

lemma index_entry_of_href:
  "index_entry_of clk c = Inr e \<Longrightarrow> entry_href e = href_of c"
  by (auto simp: index_entry_of_def href_of_def split: option.splits sum.splits)

lemma index_entry_of_field:
  "index_entry_of clk c = Inr e \<Longrightarrow> last_message_date c \<noteq> None"
  by (auto simp: index_entry_of_def split: option.splits)

lemma map_Inr_href:
  "map Inr es = map (index_entry_of clk) cs \<Longrightarrow> map entry_href es = map href_of cs"
proof (induction cs arbitrary: es)
  case Nil
  then show ?case by simp
next
  case (Cons c cs)
  then obtain e es' where es: "es = e # es'" by (cases es) auto
  with Cons.prems have "index_entry_of clk c = Inr e" "map Inr es' = map (index_entry_of clk) cs"
    by simp_all
  then show ?case
    using Cons.IH [of es'] index_entry_of_href [of clk c e] es by simp
qed

text \<open>
  C4, amended. The index page is produced exactly when every chat has an index entry
  (which needs its \<^verbatim>\<open>last_message_date\<close> entry), and a chat document without a
  \<^verbatim>\<open>last_message_date\<close> entry makes it fail with \<^verbatim>\<open>KeyError\<close>. When it is produced, its
  entries are the entries of the same chats, in descending order of their
  \<^verbatim>\<open>last_message_date\<close> entry, chats with equal entries in their input order.
\<close>

theorem create_index_page_lists_by_field:
  "((\<exists>c\<in>set chats. last_message_date c = None) \<longrightarrow>
      create_index_page clk chats = Inl (KeyError ''last_message_date'')) \<and>
   ((\<exists>es. create_index_page clk chats = Inr es) =
      (\<forall>c\<in>set chats. \<exists>e. index_entry_of clk c = Inr e)) \<and>
   ((\<forall>c\<in>set chats. \<exists>e. index_entry_of clk c = Inr e) \<longrightarrow>
      (\<exists>out es.
         create_index_page clk chats = Inr es \<and>
         map Inr es = map (index_entry_of clk) out \<and>
         map entry_href es = map href_of out \<and>
         mset out = mset chats \<and>
         sorted (rev (map (\<lambda>c. the (last_message_date c)) out)) \<and>
         (\<forall>t. filter (\<lambda>c. last_message_date c = Some t) out
              = filter (\<lambda>c. last_message_date c = Some t) chats)))"
proof (intro conjI impI)
  assume "\<exists>c\<in>set chats. last_message_date c = None"
  then show "create_index_page clk chats = Inl (KeyError ''last_message_date'')"
    by (simp add: create_index_page_def sort_chats_def list_ex_iff)
next
  show "(\<exists>es. create_index_page clk chats = Inr es) =
      (\<forall>c\<in>set chats. \<exists>e. index_entry_of clk c = Inr e)"
  proof
    assume "\<exists>es. create_index_page clk chats = Inr es"
    then obtain es out where
      out: "sort_chats chats = Inr out" and es: "index_entries clk out = Inr es"
      by (auto simp: create_index_page_def split: sum.splits)
    from out have "out = py_sorted (\<lambda>c. the (last_message_date c)) True chats"
      by (auto simp: sort_chats_def split: if_splits)
    then have "set out = set chats"
      using py_sorted_mset [of "\<lambda>c. the (last_message_date c)" True chats]
      by (metis set_mset_mset)
    then show "\<forall>c\<in>set chats. \<exists>e. index_entry_of clk c = Inr e"
      using index_entries_ok [OF es] by simp
  next
    assume ok: "\<forall>c\<in>set chats. \<exists>e. index_entry_of clk c = Inr e"
    then have "\<forall>c\<in>set chats. last_message_date c \<noteq> None"
      using index_entry_of_field by blast
    then obtain out where out: "sort_chats chats = Inr out" "mset out = mset chats"
      using sort_chats_run by blast
    then have "set out = set chats" by (metis set_mset_mset)
    then obtain es where "index_entries clk out = Inr es"
      using index_entries_map [of out clk] ok by auto
    then show "\<exists>es. create_index_page clk chats = Inr es"
      by (simp add: create_index_page_def out)
  qed
next
  assume ok: "\<forall>c\<in>set chats. \<exists>e. index_entry_of clk c = Inr e"
  then have "\<forall>c\<in>set chats. last_message_date c \<noteq> None"
    using index_entry_of_field by blast
  then obtain out where
    out: "sort_chats chats = Inr out" "mset out = mset chats"
      "sorted (rev (map (\<lambda>c. the (last_message_date c)) out))"
      "\<forall>t. filter (\<lambda>c. last_message_date c = Some t) out
              = filter (\<lambda>c. last_message_date c = Some t) chats"
    using sort_chats_run by blast
  then have "set out = set chats" by (metis set_mset_mset)
  then obtain es where
    es: "index_entries clk out = Inr es" "map Inr es = map (index_entry_of clk) out"
    using index_entries_map [of out clk] ok by auto
  have "create_index_page clk chats = Inr es"
    by (simp add: create_index_page_def out es)
  then show "\<exists>out es.
         create_index_page clk chats = Inr es \<and>
         map Inr es = map (index_entry_of clk) out \<and>
         map entry_href es = map href_of out \<and>
         mset out = mset chats \<and>
         sorted (rev (map (\<lambda>c. the (last_message_date c)) out)) \<and>
         (\<forall>t. filter (\<lambda>c. last_message_date c = Some t) out
              = filter (\<lambda>c. last_message_date c = Some t) chats)"
    using es out map_Inr_href [OF es(2)] by blast
qed

text \<open>
  C4, as stated, fails. The index is ordered by the \<^verbatim>\<open>last_message_date\<close> entry of the
  chat document, whatever the messages are: it lists a chat without messages whose
  entry is 500 before a chat whose newest message is at 300, and a chat whose entry is
  900 before a chat with a newer message whose entry is 50.
\<close>

theorem create_index_page_field_counterexample:
  "map_sum id (map entry_href) (create_index_page utc_clock [chat_at_300, chat_without_messages])
     = Inr [href_of chat_without_messages, href_of chat_at_300]
   \<and> \<not> spec_index_ordered [chat_without_messages, chat_at_300]
   \<and> map_sum id (map entry_href) (create_index_page utc_clock [chat_stale_50, chat_stale_900])
     = Inr [href_of chat_stale_900, href_of chat_stale_50]
   \<and> \<not> spec_index_ordered [chat_stale_900, chat_stale_50]"
  by code_simp

theorem create_index_page_lists_by_field_witness:
  "map_sum id (map entry_href)
     (create_index_page utc_clock
        [chat_stale_50, chat_at_300, chat_stale_900, chat_without_messages])
     = Inr [''chats/chat_c.html'', ''chats/chat_a.html'', ''chats/chat_b.html'',
            ''chats/chat_d.html'']
   \<and> create_index_page utc_clock [chat_at_300, chat_at_300\<lparr>last_message_date := None\<rparr>]
       = Inl (KeyError ''last_message_date'')"
proof -
  let ?chats = "[chat_stale_50, chat_at_300, chat_stale_900, chat_without_messages]"
  have "\<forall>c\<in>set ?chats. \<not> isl (index_entry_of utc_clock c)"
    by code_simp
  then have h: "\<forall>c\<in>set ?chats. \<exists>e. index_entry_of utc_clock c = Inr e"
    by (metis sum.collapse(2))
  have e: "map_sum id (map entry_href) (create_index_page utc_clock ?chats)
     = Inr [''chats/chat_c.html'', ''chats/chat_a.html'', ''chats/chat_b.html'',
            ''chats/chat_d.html'']"
    by code_simp
  have n: "\<exists>c\<in>set [chat_at_300, chat_at_300\<lparr>last_message_date := None\<rparr>].
             last_message_date c = None"
    by simp
  from create_index_page_lists_by_field [of ?chats utc_clock]
    create_index_page_lists_by_field
      [of "[chat_at_300, chat_at_300\<lparr>last_message_date := None\<rparr>]" utc_clock]
    h e n
  show ?thesis by blast
qed


lemma index_entry_of_preview:
  assumes "last_message_date c = Some t" and "clk t \<noteq> None"
    and "\<forall>m\<in>set (messages c). msg_text m \<noteq> Absent"
  shows "\<exists>e. index_entry_of clk c = Inr e \<and>
           entry_preview e =
             (case List.find has_text (py_sorted date True (messages c)) of
                None \<Rightarrow> []
              | Some m \<Rightarrow> if length (text_of m) > 50 then take 50 (text_of m) @ ''...''
                          else text_of m)"
proof -
  from assms(2) obtain d tm where clk: "clk t = Some (d, tm)" by auto
  show ?thesis
    using last_message_preview_find [OF assms(3)]
    by (simp add: index_entry_of_def assms(1) clk)
qed

lemma map_Inr_pairs:
  assumes "map Inr es = map (index_entry_of clk) cs"
    and "\<forall>c\<in>set cs. \<exists>e. index_entry_of clk c = Inr e \<and> entry_preview e = p c"
  shows "map (\<lambda>e. (entry_href e, entry_preview e)) es = map (\<lambda>c. (href_of c, p c)) cs"
  using assms
proof (induction cs arbitrary: es)
  case Nil
  then show ?case by simp
next
  case (Cons c cs)
  then obtain e es' where es: "es = e # es'" by (cases es) auto
  with Cons.prems have hd: "index_entry_of clk c = Inr e"
    and tl: "map Inr es' = map (index_entry_of clk) cs"
    by simp_all
  from Cons.prems(2) hd have "entry_preview e = p c" by auto
  then show ?case
    using Cons.IH [OF tl] Cons.prems(2) index_entry_of_href [OF hd] es by simp
qed

text \<open>
  C7, amended. When every chat has a \<^verbatim>\<open>last_message_date\<close> the clock can represent and
  every message carries the \<^verbatim>\<open>text\<close> key (its value may be \<^verbatim>\<open>null\<close> or empty), the
  index page is produced and the preview of each chat is computed on its messages in
  descending order of timestamp, messages of one timestamp in their list order: it is
  the text of the first message that has text, cut to its first 50 characters followed
  by three dots when it is longer than 50 characters and unchanged otherwise, and the
  empty string when no message has text.
\<close>

theorem index_preview_newest_text:
  assumes "\<forall>c\<in>set chats.
             (\<exists>t. last_message_date c = Some t \<and> clk t \<noteq> None) \<and>
             (\<forall>m\<in>set (messages c). msg_text m \<noteq> Absent)"
  shows "\<exists>out es.
           create_index_page clk chats = Inr es \<and>
           mset out = mset chats \<and>
           map (\<lambda>e. (entry_href e, entry_preview e)) es =
             map (\<lambda>c. (href_of c,
                        case List.find has_text (py_sorted date True (messages c)) of
                          None \<Rightarrow> []
                        | Some m \<Rightarrow> if length (text_of m) > 50
                                    then take 50 (text_of m) @ ''...'' else text_of m)) out \<and>
           (\<forall>msgs. sorted (rev (map date (py_sorted date True msgs))) \<and>
                   mset (py_sorted date True msgs) = mset msgs \<and>
                   (\<forall>t. filter (\<lambda>m. date m = t) (py_sorted date True msgs)
                        = filter (\<lambda>m. date m = t) msgs))"
proof -
  let ?p = "\<lambda>c. case List.find has_text (py_sorted date True (messages c)) of
                  None \<Rightarrow> []
                | Some m \<Rightarrow> if length (text_of m) > 50
                            then take 50 (text_of m) @ ''...'' else text_of m"
  have entry: "\<forall>c\<in>set chats. \<exists>e. index_entry_of clk c = Inr e \<and> entry_preview e = ?p c"
  proof
    fix c assume c: "c \<in> set chats"
    with assms obtain t where
      t: "last_message_date c = Some t" "clk t \<noteq> None" by blast
    from assms c have keys: "\<forall>m\<in>set (messages c). msg_text m \<noteq> Absent" by blast
    show "\<exists>e. index_entry_of clk c = Inr e \<and> entry_preview e = ?p c"
      using index_entry_of_preview [of c t clk] t keys by simp
  qed
  have "\<forall>c\<in>set chats. last_message_date c \<noteq> None"
    using assms by auto
  then obtain out where out: "sort_chats chats = Inr out" "mset out = mset chats"
    using sort_chats_run by blast
  then have same: "set out = set chats" by (metis set_mset_mset)
  have entry_out: "\<forall>c\<in>set out. \<exists>e. index_entry_of clk c = Inr e \<and> entry_preview e = ?p c"
    using entry same by simp
  then have "\<forall>c\<in>set out. \<exists>e. index_entry_of clk c = Inr e"
    by blast
  then obtain es where
    es: "index_entries clk out = Inr es" "map Inr es = map (index_entry_of clk) out"
    using index_entries_map [of out clk] by blast
  have page: "create_index_page clk chats = Inr es"
    by (simp add: create_index_page_def out es)
  have pairs: "map (\<lambda>e. (entry_href e, entry_preview e)) es = map (\<lambda>c. (href_of c, ?p c)) out"
    by (rule map_Inr_pairs [OF es(2) entry_out])
  have order: "\<forall>msgs. sorted (rev (map date (py_sorted date True msgs))) \<and>
                   mset (py_sorted date True msgs) = mset msgs \<and>
                   (\<forall>t. filter (\<lambda>m. date m = t) (py_sorted date True msgs)
                        = filter (\<lambda>m. date m = t) msgs)"
    by (simp add: py_sorted_mset py_sorted_descending py_sorted_stable)
  have "create_index_page clk chats = Inr es \<and>
           mset out = mset chats \<and>
           map (\<lambda>e. (entry_href e, entry_preview e)) es = map (\<lambda>c. (href_of c, ?p c)) out \<and>
           (\<forall>msgs. sorted (rev (map date (py_sorted date True msgs))) \<and>
                   mset (py_sorted date True msgs) = mset msgs \<and>
                   (\<forall>t. filter (\<lambda>m. date m = t) (py_sorted date True msgs)
                        = filter (\<lambda>m. date m = t) msgs))"
  proof (intro conjI)
    show "create_index_page clk chats = Inr es" by (rule page)
    show "mset out = mset chats" by (rule out(2))
    show "map (\<lambda>e. (entry_href e, entry_preview e)) es = map (\<lambda>c. (href_of c, ?p c)) out"
      by (rule pairs)
    show "\<forall>msgs. sorted (rev (map date (py_sorted date True msgs))) \<and>
                   mset (py_sorted date True msgs) = mset msgs \<and>
                   (\<forall>t. filter (\<lambda>m. date m = t) (py_sorted date True msgs)
                        = filter (\<lambda>m. date m = t) msgs)"
      by (rule order)
  qed
  then show ?thesis
    by (intro exI)
qed

text \<open>
  C7, as stated, fails for a chat whose only message has no \<^verbatim>\<open>text\<close> key: the chat
  has no message text, and the index page raises \<^verbatim>\<open>KeyError\<close> instead of showing an
  empty preview.
\<close>

theorem index_preview_missing_key_counterexample:
  "\<not> has_text no_text_key \<and>
   create_index_page utc_clock [preview_chat ''x'' [no_text_key]] = Inl (KeyError ''text'')"
  by code_simp

theorem index_preview_newest_text_witness:
  "map_sum id (map (\<lambda>e. (entry_href e, entry_preview e)))
     (create_index_page utc_clock
        [preview_chat ''p'' (rev preview_messages), preview_chat ''q'' preview_messages,
         preview_chat ''r'' silent_messages, preview_chat ''s'' []])
   = Inr [(''chats/chat_p.html'', ''12345678901234567890123456789012345678901234567890...''),
          (''chats/chat_q.html'', ''same second, earlier in the list''),
          (''chats/chat_r.html'', []),
          (''chats/chat_s.html'', [])]"
proof -
  let ?chats = "[preview_chat ''p'' (rev preview_messages), preview_chat ''q'' preview_messages,
         preview_chat ''r'' silent_messages, preview_chat ''s'' []]"
  have "\<forall>c\<in>set ?chats.
          (case last_message_date c of None \<Rightarrow> False | Some t \<Rightarrow> utc_clock t \<noteq> None) \<and>
          (\<forall>m\<in>set (messages c). msg_text m \<noteq> Absent)"
    by code_simp
  then have h: "\<forall>c\<in>set ?chats.
             (\<exists>t. last_message_date c = Some t \<and> utc_clock t \<noteq> None) \<and>
             (\<forall>m\<in>set (messages c). msg_text m \<noteq> Absent)"
    by (auto split: option.splits)
  have e: "map_sum id (map (\<lambda>e. (entry_href e, entry_preview e)))
     (create_index_page utc_clock ?chats)
   = Inr [(''chats/chat_p.html'', ''12345678901234567890123456789012345678901234567890...''),
          (''chats/chat_q.html'', ''same second, earlier in the list''),
          (''chats/chat_r.html'', []),
          (''chats/chat_s.html'', [])]"
    by code_simp
  from index_preview_newest_text [OF h] e show ?thesis by simp
qed

end
